theory Spec2Isabelle
  imports Complex_Main "HOL-Library.Word"
begin

unbundle bit_operations_syntax

chapter \<open>The libiio streaming examples\<close>

text \<open>
  Five example programs (\<^verbatim>\<open>ad4630-iiostream.c\<close>, \<^verbatim>\<open>ad4696-iiostream.c\<close>,
  \<^verbatim>\<open>ad7768-iiostream.c\<close>, \<^verbatim>\<open>adrv9002-iiostream.c\<close>, \<^verbatim>\<open>adrv9002-iiostream-dds.c\<close>)
  drive the external IIO client library.  The library, the C library and the operating
  system are outside the repository: their answers are inputs of the model.
\<close>

section \<open>Sample buffers: bytes, loads and stores\<close>

text \<open>
  A buffer obtained from \<^verbatim>\<open>malloc\<close> is a list of bytes.  The examples read and write it
  through \<^verbatim>\<open>int32_t *\<close> and \<^verbatim>\<open>int64_t *\<close> casts of the same pointer, so loads and stores
  are modelled on the bytes themselves (little-endian, as on the ARM and x86 targets of
  the examples).  An access outside the block is \<open>None\<close>.
\<close>

type_synonym byte = "8 word"

fun le_word :: "byte list \<Rightarrow> 'a::len word" where
  "le_word [] = 0"
| "le_word (b # bs) = ucast b OR push_bit 8 (le_word bs)"

definition le_bytes :: "nat \<Rightarrow> 'a::len word \<Rightarrow> byte list" where
  "le_bytes n w = map (\<lambda>k. ucast (drop_bit (8 * k) w)) [0..<n]"

definition load_bytes :: "byte list \<Rightarrow> nat \<Rightarrow> nat \<Rightarrow> byte list option" where
  "load_bytes buf off n =
     (if off + n \<le> length buf then Some (take n (drop off buf)) else None)"

definition store_bytes :: "byte list \<Rightarrow> nat \<Rightarrow> byte list \<Rightarrow> byte list option" where
  "store_bytes buf off bs =
     (if off + length bs \<le> length buf
      then Some (take off buf @ bs @ drop (off + length bs) buf) else None)"

text \<open>\<^verbatim>\<open>((int32_t *)buf)[i]\<close> and \<^verbatim>\<open>((int64_t *)buf)[i]\<close> as rvalues, and the former as an lvalue.\<close>

definition load_i32 :: "byte list \<Rightarrow> nat \<Rightarrow> 32 word option" where
  "load_i32 buf i = map_option le_word (load_bytes buf (4 * i) 4)"

definition load_i64 :: "byte list \<Rightarrow> nat \<Rightarrow> 64 word option" where
  "load_i64 buf i = map_option le_word (load_bytes buf (8 * i) 8)"

definition store_i32 :: "byte list \<Rightarrow> nat \<Rightarrow> 32 word \<Rightarrow> byte list option" where
  "store_i32 buf i v = store_bytes buf (4 * i) (le_bytes 4 v)"

text \<open>The \<open>i\<close>-th 32-bit and 64-bit word of a buffer as captured, for stating results.\<close>

definition raw32 :: "byte list \<Rightarrow> nat \<Rightarrow> 32 word" where
  "raw32 buf i = le_word (take 4 (drop (4 * i) buf))"

definition raw64 :: "byte list \<Rightarrow> nat \<Rightarrow> 64 word" where
  "raw64 buf i = le_word (take 8 (drop (8 * i) buf))"

section \<open>AD7768: printing the samples\<close>

text \<open>
  \<^verbatim>\<open>for (sample = 0; sample < bytes / sample_size; ++sample)
      printf("%" PRId32 " ", ((int32_t *)buf)[sample] << 8);\<close>

  The shift is on a 32-bit \<^verbatim>\<open>int\<close> and wraps (as the compilers of the targets do); the
  output is the list of integers printed.  \<^verbatim>\<open>bytes\<close> is the \<^verbatim>\<open>size_t\<close> result of
  \<^verbatim>\<open>iio_channel_read_raw\<close>; a zero \<^verbatim>\<open>sample_size\<close> is a division by zero.
\<close>

function ad7768_print_loop :: "nat \<Rightarrow> nat \<Rightarrow> byte list \<Rightarrow> int list option" where
  "ad7768_print_loop sample n buf =
     (if sample < n then
        (case load_i32 buf sample of
           None \<Rightarrow> None
         | Some v \<Rightarrow>
             (case ad7768_print_loop (Suc sample) n buf of
                None \<Rightarrow> None
              | Some out \<Rightarrow> Some (sint (push_bit 8 v :: 32 word) # out)))
      else Some [])"
  by pat_completeness auto
termination
  by (relation "measure (\<lambda>(sample, n, buf). n - sample)") auto

definition ad7768_print_samples :: "byte list \<Rightarrow> nat \<Rightarrow> nat \<Rightarrow> int list option" where
  "ad7768_print_samples buf bytes sample_size =
     (if sample_size = 0 then None
      else ad7768_print_loop 0 (bytes div sample_size) buf)"

section \<open>AD4630: formatting and printing the samples\<close>

text \<open>The compile-time configuration of \<^verbatim>\<open>ad4630-iiostream.c\<close>.\<close>

definition OUT_DATA_MD :: nat where "OUT_DATA_MD = 1"
definition CHANNEL_NUMBER :: nat where "CHANNEL_NUMBER = 0"

text \<open>
  The \<^verbatim>\<open>#if\<close> chain on \<^verbatim>\<open>OUT_DATA_MD\<close> inside the two loops: the value stored back for one
  raw 64-bit sample; \<open>None\<close> when no branch of the chain is compiled in.  The cast to
  \<^verbatim>\<open>int32_t\<close> keeps the low 32 bits, \<^verbatim>\<open>>>\<close> on \<^verbatim>\<open>int32_t\<close> is the arithmetic shift.
\<close>

definition format_ch0 :: "nat \<Rightarrow> 64 word \<Rightarrow> 32 word option" where
  "format_ch0 md raw =
     (if md = 0 then Some (signed_drop_bit 8 (ucast raw :: 32 word))
      else if md = 1 then Some (signed_drop_bit 16 (ucast raw :: 32 word))
      else if md = 2 then Some (signed_drop_bit 8 (ucast raw :: 32 word))
      else if md = 3 then Some (signed_drop_bit 2 (ucast raw :: 32 word))
      else if md = 4 then Some (ucast raw)
      else None)"

definition format_ch1 :: "nat \<Rightarrow> 64 word \<Rightarrow> 32 word option" where
  "format_ch1 md raw =
     (if md = 0 then Some (signed_drop_bit 8 (ucast (signed_drop_bit 32 raw) :: 32 word))
      else if md = 1 then Some (signed_drop_bit 16 (ucast (signed_drop_bit 32 raw) :: 32 word))
      else if md = 2 then Some (signed_drop_bit 8 (ucast (signed_drop_bit 32 raw) :: 32 word))
      else if md = 3 then Some (signed_drop_bit 2 (ucast (signed_drop_bit 32 raw) :: 32 word))
      else if md = 4 then Some (ucast (signed_drop_bit 32 raw))
      else None)"

definition format_sample :: "nat \<Rightarrow> nat \<Rightarrow> 64 word \<Rightarrow> 32 word option" where
  "format_sample chn md raw = (if chn = 0 then format_ch0 md raw else format_ch1 md raw)"

text \<open>
  One pass of the sample loop: load the 64-bit sample, store the formatted value back
  into the same block through the \<^verbatim>\<open>int32_t\<close> view, load it again for \<^verbatim>\<open>printf("... 0x%x")\<close>.
  The result is the block afterwards and the values printed.
\<close>

function ad4630_print_loop ::
    "nat \<Rightarrow> nat \<Rightarrow> nat \<Rightarrow> nat \<Rightarrow> byte list \<Rightarrow> (byte list \<times> 32 word list) option" where
  "ad4630_print_loop chn md sample n buf =
     (if sample < n then
        (case load_i64 buf sample of
           None \<Rightarrow> None
         | Some raw \<Rightarrow>
             (case (case format_sample chn md raw of
                      None \<Rightarrow> Some buf
                    | Some v \<Rightarrow> store_i32 buf sample v) of
                None \<Rightarrow> None
              | Some buf' \<Rightarrow>
                  (case load_i32 buf' sample of
                     None \<Rightarrow> None
                   | Some shown \<Rightarrow>
                       (case ad4630_print_loop chn md (Suc sample) n buf' of
                          None \<Rightarrow> None
                        | Some (buf'', out) \<Rightarrow> Some (buf'', shown # out)))))
      else Some (buf, []))"
  by pat_completeness auto
termination
  by (relation "measure (\<lambda>(chn, md, sample, n, buf). n - sample)") auto

definition ad4630_print_samples ::
    "byte list \<Rightarrow> nat \<Rightarrow> nat \<Rightarrow> (byte list \<times> 32 word list) option" where
  "ad4630_print_samples buf bytes sample_size =
     (if sample_size = 0 then None
      else ad4630_print_loop CHANNEL_NUMBER OUT_DATA_MD 0 (bytes div sample_size) buf)"

section \<open>Channel names\<close>

text \<open>
  \<^verbatim>\<open>static char tmpstr[64];\<close>
  \<^verbatim>\<open>snprintf(tmpstr, sizeof(tmpstr), "%s%d", type, id); return tmpstr;\<close>

  \<^verbatim>\<open>snprintf\<close> is the C library's: it formats the whole output, stores at most
  \<open>size - 1\<close> characters of it followed by a NUL, and returns the length of the whole
  output.  A C string is the characters before the first NUL.
\<close>

definition NUL :: char where "NUL = CHR 0x00"

definition c_str :: "char list \<Rightarrow> string" where
  "c_str cs = takeWhile (\<lambda>c. c \<noteq> NUL) cs"

definition digit_char :: "nat \<Rightarrow> char" where
  "digit_char d = ''0123456789'' ! (d mod 10)"

function dec_nat :: "nat \<Rightarrow> string" where
  "dec_nat n = (if n < 10 then [digit_char n] else dec_nat (n div 10) @ [digit_char (n mod 10)])"
  by pat_completeness auto
termination
  by (relation "measure id") auto

definition dec_int :: "int \<Rightarrow> string" where
  "dec_int i = (if i < 0 then CHR ''-'' # dec_nat (nat (- i)) else dec_nat (nat i))"

definition snprintf :: "char list \<Rightarrow> nat \<Rightarrow> string \<Rightarrow> char list \<times> nat" where
  "snprintf dst sz out =
     (if sz = 0 then (dst, length out)
      else (let written = take (sz - 1) out @ [NUL]
            in (written @ drop (length written) dst, length out)))"

definition get_ch_name :: "char list \<Rightarrow> char list \<Rightarrow> 32 word \<Rightarrow> char list" where
  "get_ch_name tmpstr type id_arg =
     fst (snprintf tmpstr (length tmpstr) (c_str type @ dec_int (sint id_arg)))"

section \<open>The process and its environment\<close>

text \<open>
  Pointers are addresses, \<open>NULL\<close> is 0.  The constants below come from the system
  headers (\<^verbatim>\<open>signal.h\<close>, \<^verbatim>\<open>errno.h\<close>, \<^verbatim>\<open>stdlib.h\<close>) of the Linux targets.
\<close>

type_synonym ptr = int

definition NULL :: ptr where "NULL = 0"
definition SIGINT :: int where "SIGINT = 2"
definition SIGTERM :: int where "SIGTERM = 15"
definition ENODEV :: int where "ENODEV = 19"
definition EXIT_FAILURE :: int where "EXIT_FAILURE = 1"

text \<open>
  The calls the examples make into the IIO library and the C library, with their
  arguments.  The constructors carry the names of the functions called.
\<close>

datatype call =
    libc_signal int
  | libc_sigaction int
  | libc_sigprocmask
  | libc_sleep nat
  | libc_malloc nat
  | libc_free ptr
  | iio_create_default_context
  | iio_create_context_from_uri string
  | iio_context_get_devices_count ptr
  | iio_context_find_device ptr string
  | iio_context_destroy ptr
  | iio_device_find_channel ptr string bool
  | iio_device_reg_write ptr nat nat
  | iio_device_reg_read ptr nat
  | iio_device_debug_attr_write ptr string string
  | iio_device_create_buffer ptr nat bool
  | iio_channel_enable ptr
  | iio_channel_disable ptr
  | iio_channel_attr_read_longlong ptr string
  | iio_channel_attr_read_double ptr string
  | iio_channel_attr_write_longlong ptr string int
  | iio_channel_attr_write_double ptr string real
  | iio_channel_get_data_format ptr
  | iio_channel_get_id ptr
  | iio_channel_read_raw ptr ptr ptr nat
  | iio_buffer_refill ptr
  | iio_buffer_push ptr
  | iio_buffer_step ptr
  | iio_buffer_end ptr
  | iio_buffer_first ptr ptr
  | iio_buffer_destroy ptr

text \<open>
  What a run does, in order: a call with the value it returned (0 for a \<^verbatim>\<open>void\<close>
  function), a signal handler that ran, a test of the \<^verbatim>\<open>stop\<close> flag with the value read.
\<close>

datatype event = Call call int | Handler int | Stop_test bool

datatype outcome = Exit int | Abort

text \<open>
  \<open>Cut_off\<close>: the streaming loop was still running when the fuel given to the model
  ran out (the loop runs for as long as no signal arrives).
\<close>

datatype status = Running | Ended outcome | Cut_off

text \<open>
  The environment.  \<open>result w n\<close> is what the library returns to the call that is the
  \<open>n\<close>-th event of the run; \<open>out_ll\<close> and \<open>out_dbl\<close> are what it stores through an
  out-pointer; \<open>fmt_length\<close> and \<open>fmt_repeat\<close> are the fields of the data format a pointer
  leads to; \<open>signals w k\<close> are the signals delivered before the \<open>k\<close>-th test of the
  \<^verbatim>\<open>stop\<close> flag; \<open>indeterminate\<close> is the value a caller reads from a function that ended
  without a \<^verbatim>\<open>return\<close> statement.
\<close>

record world =
  result :: "nat \<Rightarrow> int"
  out_ll :: "nat \<Rightarrow> int"
  out_dbl :: "nat \<Rightarrow> real"
  fmt_length :: "ptr \<Rightarrow> nat"
  fmt_repeat :: "ptr \<Rightarrow> nat"
  signals :: "nat \<Rightarrow> int list"
  indeterminate :: int

text \<open>
  The static variables of the five files (which share their names; a file that does not
  declare one never touches it), with the run so far.  \<open>rx_chan\<close> and \<open>tx_chan\<close> are
  the two-element arrays.  \<open>handlers\<close> are the signals a handler is installed for.
\<close>

record globals =
  trace :: "event list"
  status :: status
  ntests :: nat
  handlers :: "int list"
  stop :: bool
  ctx :: ptr
  rxbuf :: ptr
  txbuf :: ptr
  rxchan :: ptr
  rx_chan :: "ptr list"
  tx_chan :: "ptr list"
  tmpstr :: "char list"

definition init_globals :: globals where
  "init_globals =
     \<lparr>trace = [], status = Running, ntests = 0, handlers = [], stop = False,
      ctx = NULL, rxbuf = NULL, txbuf = NULL, rxchan = NULL,
      rx_chan = [NULL, NULL], tx_chan = [NULL, NULL], tmpstr = replicate 64 NUL\<rparr>"

definition running :: "globals \<Rightarrow> bool" where
  "running s = (status s = Running)"

definition lib :: "world \<Rightarrow> call \<Rightarrow> globals \<Rightarrow> int \<times> globals" where
  "lib w c s =
     (let r = result w (length (trace s)) in (r, s\<lparr>trace := trace s @ [Call c r]\<rparr>))"

definition lib_void :: "world \<Rightarrow> call \<Rightarrow> globals \<Rightarrow> globals" where
  "lib_void w c s = s\<lparr>trace := trace s @ [Call c 0]\<rparr>"

definition c_exit :: "int \<Rightarrow> globals \<Rightarrow> globals" where
  "c_exit n s = s\<lparr>status := Ended (Exit n)\<rparr>"

definition c_abort :: "globals \<Rightarrow> globals" where
  "c_abort s = s\<lparr>status := Ended Abort\<rparr>"

text \<open>\<^verbatim>\<open>#define IIO_ENSURE(expr) { if (!(expr)) { fprintf(stderr, ...); abort(); } }\<close>\<close>

definition IIO_ENSURE :: "bool \<Rightarrow> globals \<Rightarrow> globals" where
  "IIO_ENSURE expr s = (if \<not> expr then c_abort s else s)"

text \<open>
  Signals reach the program between two tests of the flag: the handler runs for each
  delivered signal it is installed for, then the loop condition reads \<^verbatim>\<open>stop\<close>.
\<close>

definition deliver :: "(int \<Rightarrow> globals \<Rightarrow> globals) \<Rightarrow> world \<Rightarrow> globals \<Rightarrow> globals" where
  "deliver handler w s =
     foldl (\<lambda>t sig. if sig \<in> set (handlers t) then handler sig t else t) s (signals w (ntests s))"

definition test_stop :: "(int \<Rightarrow> globals \<Rightarrow> globals) \<Rightarrow> world \<Rightarrow> globals \<Rightarrow> globals" where
  "test_stop handler w s =
     (let s1 = deliver handler w s
      in s1\<lparr>trace := trace s1 @ [Stop_test (stop s1)], ntests := Suc (ntests s1)\<rparr>)"

text \<open>
  \<^verbatim>\<open>while (!stop) { body }\<close>, one iteration per unit of fuel.  The body tells whether
  control reached its end (\<open>True\<close>) or left the loop from inside, by \<^verbatim>\<open>return\<close> or by
  ending the process (\<open>False\<close>).
\<close>

fun while_not_stop ::
    "nat \<Rightarrow> (int \<Rightarrow> globals \<Rightarrow> globals) \<Rightarrow> (world \<Rightarrow> globals \<Rightarrow> bool \<times> globals)
       \<Rightarrow> world \<Rightarrow> globals \<Rightarrow> globals" where
  "while_not_stop 0 handler body w s0 = s0\<lparr>status := Cut_off\<rparr>"
| "while_not_stop (Suc fuel) handler body w s0 =
     (let s1 = test_stop handler w s0
      in if stop s1 then s1 else
      let (completed, s2) = body w s1
      in if completed then while_not_stop fuel handler body w s2 else s2)"

section \<open>The ADC examples: ad4630, ad4696, ad7768\<close>

text \<open>
  The three files share \<^verbatim>\<open>shutdown\<close>, \<^verbatim>\<open>handle_sig\<close>, \<^verbatim>\<open>errchk\<close>, \<^verbatim>\<open>rd_ch_lli\<close> and
  \<^verbatim>\<open>get_ch_name\<close> word for word; the device lookups differ in the device name only,
  which is a parameter below.
\<close>

definition BUFFER_LENGTH :: nat where "BUFFER_LENGTH = 400"

datatype iodev = RX | TX

definition shutdown :: "world \<Rightarrow> globals \<Rightarrow> globals" where
  "shutdown w s0 =
     (let s1 = (if rxbuf s0 \<noteq> NULL then lib_void w (iio_buffer_destroy (rxbuf s0)) s0 else s0);
          s2 = (if rxchan s1 \<noteq> NULL then lib_void w (iio_channel_disable (rxchan s1)) s1 else s1);
          s3 = (if ctx s2 \<noteq> NULL then lib_void w (iio_context_destroy (ctx s2)) s2 else s2)
      in c_exit 0 s3)"

definition handle_sig :: "int \<Rightarrow> globals \<Rightarrow> globals" where
  "handle_sig sig s = s\<lparr>trace := trace s @ [Handler sig], stop := True\<rparr>"

definition errchk :: "world \<Rightarrow> int \<Rightarrow> string \<Rightarrow> globals \<Rightarrow> globals" where
  "errchk w v what s = (if v < 0 then shutdown w s else s)"

definition rd_ch_lli :: "world \<Rightarrow> ptr \<Rightarrow> string \<Rightarrow> globals \<Rightarrow> globals" where
  "rd_ch_lli w chn what s =
     (let (v, s1) = lib w (iio_channel_attr_read_longlong chn what) s
      in errchk w v what s1)"

definition get_ch_name_tmpstr :: "string \<Rightarrow> 32 word \<Rightarrow> globals \<Rightarrow> globals" where
  "get_ch_name_tmpstr type id_arg s = s\<lparr>tmpstr := get_ch_name (tmpstr s) type id_arg\<rparr>"

text \<open>\<^verbatim>\<open>get_ad4630\<close>, \<^verbatim>\<open>get_ad4696\<close>, \<^verbatim>\<open>get_ad7768\<close>.\<close>

definition get_adc :: "string \<Rightarrow> world \<Rightarrow> ptr \<Rightarrow> globals \<Rightarrow> ptr \<times> globals" where
  "get_adc name w c s =
     (let (dev, s1) = lib w (iio_context_find_device c name) s
      in (dev, IIO_ENSURE (dev \<noteq> NULL) s1))"

text \<open>
  \<^verbatim>\<open>get_ad4630_stream_dev\<close> and its two copies: the result, the device pointer written
  through \<^verbatim>\<open>dev\<close>, the state.
\<close>

definition get_adc_stream_dev ::
    "string \<Rightarrow> world \<Rightarrow> ptr \<Rightarrow> iodev \<Rightarrow> ptr \<Rightarrow> globals \<Rightarrow> bool \<times> ptr \<times> globals" where
  "get_adc_stream_dev name w c d dev0 s =
     (case d of
        RX \<Rightarrow> (let (dev, s1) = lib w (iio_context_find_device c name) s
               in (dev \<noteq> NULL, dev, s1))
      | TX \<Rightarrow> (False, dev0, IIO_ENSURE False s))"

definition get_adc_stream_ch ::
    "world \<Rightarrow> ptr \<Rightarrow> iodev \<Rightarrow> ptr \<Rightarrow> 32 word \<Rightarrow> globals \<Rightarrow> bool \<times> ptr \<times> globals" where
  "get_adc_stream_ch w c d dev chid s =
     (let s1 = get_ch_name_tmpstr ''voltage'' chid s;
          (chn, s2) = lib w (iio_device_find_channel dev (c_str (tmpstr s1)) False) s1
      in (chn \<noteq> NULL, chn, s2))"

definition get_channel ::
    "string \<Rightarrow> world \<Rightarrow> ptr \<Rightarrow> iodev \<Rightarrow> 32 word \<Rightarrow> globals \<Rightarrow> bool \<times> ptr \<times> globals" where
  "get_channel name w c d chid s =
     (case d of
        RX \<Rightarrow> (let (dev, s1) = get_adc name w c s
               in if \<not> running s1 then (False, NULL, s1)
                  else (let s2 = get_ch_name_tmpstr ''voltage'' chid s1;
                            (chn, s3) = lib w (iio_device_find_channel dev (c_str (tmpstr s2)) False) s2
                        in (chn \<noteq> NULL, chn, s3)))
      | TX \<Rightarrow> (False, NULL, IIO_ENSURE False s))"

definition cfg_adc_streaming_ch ::
    "string \<Rightarrow> world \<Rightarrow> ptr \<Rightarrow> iodev \<Rightarrow> 32 word \<Rightarrow> globals \<Rightarrow> bool \<times> globals" where
  "cfg_adc_streaming_ch name w c type chid s =
     (let (found, chn, s1) = get_channel name w c type chid s
      in if \<not> found then (False, s1) else (True, s1))"

text \<open>
  The head of the three \<^verbatim>\<open>main\<close> functions: \<^verbatim>\<open>signal(SIGINT, handle_sig)\<close>, then the
  context from the command line (\<open>argv\<close> is the whole vector, the program name first).
\<close>

definition install_handler :: "int \<Rightarrow> globals \<Rightarrow> globals" where
  "install_handler sig s = s\<lparr>handlers := sig # handlers s\<rparr>"

definition adc_acquire_context :: "world \<Rightarrow> string list \<Rightarrow> globals \<Rightarrow> globals" where
  "adc_acquire_context w argv s0 =
     (let (r, s1) = lib w (libc_signal SIGINT) s0;
          s2 = install_handler SIGINT s1
      in if length argv = 1 then
           (let (c, s3) = lib w iio_create_default_context s2
            in IIO_ENSURE (c \<noteq> NULL) (s3\<lparr>ctx := c\<rparr>))
         else if length argv = 2 then
           (let (c, s3) = lib w (iio_create_context_from_uri (argv ! 1)) s2
            in IIO_ENSURE (c \<noteq> NULL) (s3\<lparr>ctx := c\<rparr>))
         else s2)"

subsection \<open>ad4630-iiostream.c\<close>

definition MODES_REG :: nat where "MODES_REG = 0x20"
definition DDR_MD :: nat where "DDR_MD = 0"
definition CLK_MD :: nat where "CLK_MD = 0"
definition LANE_MD :: nat where "LANE_MD = 2"

text \<open>
  \<^verbatim>\<open>main\<close> from the check of the device count up to the streaming loop; the result is
  the local \<^verbatim>\<open>rx\<close> and the state.
\<close>

definition ad4630_setup :: "world \<Rightarrow> globals \<Rightarrow> ptr \<times> globals" where
  "ad4630_setup w s1 =
     (let (n, s2) = lib w (iio_context_get_devices_count (ctx s1)) s1
      in if \<not> 0 < n then (NULL, c_abort s2) else
      let (found, rx, s3) = get_adc_stream_dev ''ad4630'' w (ctx s2) RX NULL s2
      in if \<not> running s3 then (rx, s3) else
         if \<not> found then (rx, c_abort s3) else
      let (r1, s4) = lib w (iio_device_reg_write rx MODES_REG
                        (push_bit 6 LANE_MD OR push_bit 4 CLK_MD OR push_bit 3 DDR_MD OR OUT_DATA_MD)) s3;
          (r2, s5) = lib w (iio_device_reg_read rx MODES_REG) s4;
          (cfg, s6) = cfg_adc_streaming_ch ''ad4630'' w (ctx s5) RX (of_nat CHANNEL_NUMBER) s5
      in if \<not> running s6 then (rx, s6) else
         if \<not> cfg then (rx, c_abort s6) else
      let (found, chn, s7) = get_adc_stream_ch w (ctx s6) RX rx (of_nat CHANNEL_NUMBER) s6;
          s8 = s7\<lparr>rxchan := chn\<rparr>
      in if \<not> found then (rx, c_abort s8) else
      let s9 = lib_void w (iio_channel_enable (rxchan s8)) s8;
          (b, s10) = lib w (iio_device_create_buffer rx BUFFER_LENGTH False) s9;
          s11 = s10\<lparr>rxbuf := b\<rparr>
      in if rxbuf s11 = NULL then (rx, shutdown w s11) else (rx, s11))"

text \<open>
  The body of the streaming loop.  \<^verbatim>\<open>VCOM_ENABLE\<close> is defined (\<^verbatim>\<open>OUT_DATA_MD == 1\<close>), so
  the common-mode voltage is read.  The sample loop between \<^verbatim>\<open>iio_channel_read_raw\<close> and
  \<^verbatim>\<open>free\<close> calls nothing but \<^verbatim>\<open>printf\<close> and is \<open>ad4630_print_samples\<close> above.
\<close>

definition ad4630_loop_body :: "world \<Rightarrow> globals \<Rightarrow> bool \<times> globals" where
  "ad4630_loop_body w s1 =
     (let (nbytes_rx, s2) = lib w (iio_buffer_refill (rxbuf s1)) s1
      in if nbytes_rx < 0 then (False, shutdown w s2) else
      let s3 = rd_ch_lli w (rxchan s2) ''common_mode_voltage'' s2
      in if \<not> running s3 then (False, s3) else
      let (fmt, s4) = lib w (iio_channel_get_data_format (rxchan s3)) s3;
          sample_size = fmt_length w fmt div 8 * fmt_repeat w fmt;
          (buf, s5) = lib w (libc_malloc (sample_size * BUFFER_LENGTH)) s4
      in if buf = NULL then (False, shutdown w s5) else
      let (bytes, s6) = lib w (iio_channel_read_raw (rxchan s5) (rxbuf s5) buf
                                 (sample_size * BUFFER_LENGTH)) s5;
          (chid, s7) = lib w (iio_channel_get_id (rxchan s6)) s6;
          s8 = lib_void w (libc_free buf) s7
      in (True, s8))"

definition ad4630_stream :: "nat \<Rightarrow> world \<Rightarrow> globals \<Rightarrow> globals" where
  "ad4630_stream fuel w s = while_not_stop fuel handle_sig ad4630_loop_body w s"

definition ad4630_main :: "nat \<Rightarrow> world \<Rightarrow> string list \<Rightarrow> globals" where
  "ad4630_main fuel w argv =
     (let s0 = adc_acquire_context w argv init_globals
      in if \<not> running s0 then s0 else
      let (rx, s1) = ad4630_setup w s0
      in if \<not> running s1 then s1 else
      let s2 = ad4630_stream fuel w s1
      in if \<not> running s2 then s2 else
      let (r1, s3) = lib w (iio_device_reg_write rx MODES_REG 0x82) s2;
          (r2, s4) = lib w (iio_device_reg_read rx MODES_REG) s3
      in shutdown w s4)"

subsection \<open>ad4696-iiostream.c\<close>

definition MODE_REG_VAL :: nat where "MODE_REG_VAL = 1"

definition ad4696_setup :: "world \<Rightarrow> globals \<Rightarrow> ptr \<times> globals" where
  "ad4696_setup w s1 =
     (let (n, s2) = lib w (iio_context_get_devices_count (ctx s1)) s1
      in if \<not> 0 < n then (NULL, c_abort s2) else
      let (found, rx, s3) = get_adc_stream_dev ''axi-ad469x-adc'' w (ctx s2) RX NULL s2
      in if \<not> running s3 then (rx, s3) else
         if \<not> found then (rx, c_abort s3) else
      let (cfg, s4) = cfg_adc_streaming_ch ''axi-ad469x-adc'' w (ctx s3) RX 0 s3
      in if \<not> running s4 then (rx, s4) else
         if \<not> cfg then (rx, c_abort s4) else
      let (found, chn, s5) = get_adc_stream_ch w (ctx s4) RX rx 0 s4;
          s6 = s5\<lparr>rxchan := chn\<rparr>
      in if \<not> found then (rx, c_abort s6) else
      let (r1, s7) = lib w (iio_device_reg_write rx 0x400 MODE_REG_VAL) s6;
          (r2, s8) = lib w (iio_device_reg_read rx 0x400) s7;
          s9 = lib_void w (iio_channel_enable (rxchan s8)) s8;
          (b, s10) = lib w (iio_device_create_buffer rx BUFFER_LENGTH False) s9;
          s11 = s10\<lparr>rxbuf := b\<rparr>
      in if rxbuf s11 = NULL then (rx, shutdown w s11) else (rx, s11))"

text \<open>
  The body of the streaming loop of \<^verbatim>\<open>ad4696-iiostream.c\<close> and of
  \<^verbatim>\<open>ad7768-iiostream.c\<close> (the same calls; the sample loops only print).
\<close>

definition adc_loop_body :: "world \<Rightarrow> globals \<Rightarrow> bool \<times> globals" where
  "adc_loop_body w s1 =
     (let (nbytes_rx, s2) = lib w (iio_buffer_refill (rxbuf s1)) s1
      in if nbytes_rx < 0 then (False, shutdown w s2) else
      let (fmt, s3) = lib w (iio_channel_get_data_format (rxchan s2)) s2;
          sample_size = fmt_length w fmt div 8 * fmt_repeat w fmt;
          (buf, s4) = lib w (libc_malloc (sample_size * BUFFER_LENGTH)) s3
      in if buf = NULL then (False, shutdown w s4) else
      let (bytes, s5) = lib w (iio_channel_read_raw (rxchan s4) (rxbuf s4) buf
                                 (sample_size * BUFFER_LENGTH)) s4;
          (chid, s6) = lib w (iio_channel_get_id (rxchan s5)) s5;
          s7 = lib_void w (libc_free buf) s6
      in (True, s7))"

definition adc_stream :: "nat \<Rightarrow> world \<Rightarrow> globals \<Rightarrow> globals" where
  "adc_stream fuel w s = while_not_stop fuel handle_sig adc_loop_body w s"

definition ad4696_main :: "nat \<Rightarrow> world \<Rightarrow> string list \<Rightarrow> globals" where
  "ad4696_main fuel w argv =
     (let s0 = adc_acquire_context w argv init_globals
      in if \<not> running s0 then s0 else
      let (rx, s1) = ad4696_setup w s0
      in if \<not> running s1 then s1 else
      let s2 = adc_stream fuel w s1
      in if \<not> running s2 then s2 else shutdown w s2)"

subsection \<open>ad7768-iiostream.c\<close>

definition ad7768_setup :: "world \<Rightarrow> globals \<Rightarrow> ptr \<times> globals" where
  "ad7768_setup w s1 =
     (let (n, s2) = lib w (iio_context_get_devices_count (ctx s1)) s1
      in if \<not> 0 < n then (NULL, c_abort s2) else
      let (found, rx, s3) = get_adc_stream_dev ''axi-ad7768-adc'' w (ctx s2) RX NULL s2
      in if \<not> running s3 then (rx, s3) else
         if \<not> found then (rx, c_abort s3) else
      let (cfg, s4) = cfg_adc_streaming_ch ''axi-ad7768-adc'' w (ctx s3) RX 4 s3
      in if \<not> running s4 then (rx, s4) else
         if \<not> cfg then (rx, c_abort s4) else
      let (found, chn, s5) = get_adc_stream_ch w (ctx s4) RX rx 4 s4;
          s6 = s5\<lparr>rxchan := chn\<rparr>
      in if \<not> found then (rx, c_abort s6) else
      let s7 = lib_void w (iio_channel_enable (rxchan s6)) s6;
          (b, s8) = lib w (iio_device_create_buffer rx BUFFER_LENGTH False) s7;
          s9 = s8\<lparr>rxbuf := b\<rparr>
      in if rxbuf s9 = NULL then (rx, shutdown w s9) else (rx, s9))"

definition ad7768_main :: "nat \<Rightarrow> world \<Rightarrow> string list \<Rightarrow> globals" where
  "ad7768_main fuel w argv =
     (let s0 = adc_acquire_context w argv init_globals
      in if \<not> running s0 then s0 else
      let (rx, s1) = ad7768_setup w s0
      in if \<not> running s1 then s1 else
      let s2 = adc_stream fuel w s1
      in if \<not> running s2 then s2 else shutdown w s2)"

section \<open>The ADRV9002 examples\<close>

text \<open>
  \<^verbatim>\<open>adrv9002-iiostream.c\<close> and \<^verbatim>\<open>adrv9002-iiostream-dds.c\<close> share \<^verbatim>\<open>sig_handler\<close>,
  \<^verbatim>\<open>register_signals\<close> (the POSIX branch), \<^verbatim>\<open>cleanup\<close> and
  \<^verbatim>\<open>stream_channels_get_enable\<close> word for word.
\<close>

text \<open>
  What a function of type \<^verbatim>\<open>int\<close> hands to its caller: the operand of the \<^verbatim>\<open>return\<close>
  statement it executed, or nothing when control reached its closing brace.
\<close>

datatype retval = Returned int | No_value

text \<open>\<^verbatim>\<open>#define GHZ(x) ((long long)(x * 1000000000.0 + .5))\<close>\<close>

definition GHZ :: "real \<Rightarrow> int" where
  "GHZ x = \<lfloor>x * 1000000000 + 1 / 2\<rfloor>"

definition DAC_MODE_REGISTER :: nat where "DAC_MODE_REGISTER = 0x0418"
definition TX_DAC_MODE :: nat where "TX_DAC_MODE = 0"

definition sig_handler :: "int \<Rightarrow> globals \<Rightarrow> globals" where
  "sig_handler signum s =
     (if signum = SIGINT \<or> signum = SIGTERM
      then s\<lparr>trace := trace s @ [Handler signum], stop := True\<rparr> else s)"

definition register_signals :: "world \<Rightarrow> globals \<Rightarrow> int \<times> globals" where
  "register_signals w s0 =
     (let (r1, s1) = lib w (libc_sigaction SIGTERM) s0
      in if r1 < 0 then (- 1, s1) else
      let (r2, s2) = lib w (libc_sigaction SIGINT) (install_handler SIGTERM s1)
      in if r2 < 0 then (- 1, s2) else
      let (r3, s3) = lib w libc_sigprocmask (install_handler SIGINT s2)
      in if r3 \<noteq> 0 then (- 1, s3) else (0, s3))"

text \<open>The body of \<^verbatim>\<open>for (c = 0; c < 2; c++)\<close> in \<^verbatim>\<open>cleanup\<close>, from \<open>c\<close> on.\<close>

function cleanup_channels :: "nat \<Rightarrow> world \<Rightarrow> globals \<Rightarrow> globals" where
  "cleanup_channels c w s0 =
     (if c < 2 then
        (let s1 = (if rx_chan s0 ! c \<noteq> NULL
                   then lib_void w (iio_channel_disable (rx_chan s0 ! c)) s0 else s0);
             s2 = (if tx_chan s1 ! c \<noteq> NULL
                   then lib_void w (iio_channel_disable (tx_chan s1 ! c)) s1 else s1)
         in cleanup_channels (Suc c) w s2)
      else s0)"
  by pat_completeness auto
termination
  by (relation "measure (\<lambda>(c, w, s). 2 - c)") auto

definition cleanup :: "world \<Rightarrow> globals \<Rightarrow> globals" where
  "cleanup w s0 =
     (let s1 = (if rxbuf s0 \<noteq> NULL then lib_void w (iio_buffer_destroy (rxbuf s0)) s0 else s0);
          s2 = (if txbuf s1 \<noteq> NULL then lib_void w (iio_buffer_destroy (txbuf s1)) s1 else s1);
          s3 = cleanup_channels 0 w s2
      in lib_void w (iio_context_destroy (ctx s3)) s3)"

text \<open>\<^verbatim>\<open>clean: cleanup(); return ret;\<close> at the end of \<^verbatim>\<open>main\<close>.\<close>

definition clean :: "world \<Rightarrow> int \<Rightarrow> globals \<Rightarrow> globals" where
  "clean w ret s = c_exit ret (cleanup w s)"

definition channels :: "string list" where
  "channels = [''voltage0_i'', ''voltage0_q'', ''voltage0'', ''voltage1'']"

text \<open>
  \<^verbatim>\<open>stream_channels_get_enable(dev, chan, tx)\<close> from \<open>c\<close> on: the value returned, the array
  \<^verbatim>\<open>chan\<close> points to, the state.
\<close>

function stream_channels_from ::
    "nat \<Rightarrow> world \<Rightarrow> ptr \<Rightarrow> ptr list \<Rightarrow> bool \<Rightarrow> globals \<Rightarrow> int \<times> ptr list \<times> globals" where
  "stream_channels_from c w dev chan tx s0 =
     (if c < 2 then
        (let str = channels ! ((if tx then 1 else 0) * 2 + c);
             (p, s1) = lib w (iio_device_find_channel dev str tx) s0;
             chan1 = chan[c := p]
         in if chan1 ! c = NULL then (- ENODEV, chan1, s1)
            else stream_channels_from (Suc c) w dev chan1 tx
                   (lib_void w (iio_channel_enable (chan1 ! c)) s1))
      else (0, chan, s0))"
  by pat_completeness auto
termination
  by (relation "measure (\<lambda>(c, w, dev, chan, tx, s). 2 - c)") auto

definition stream_channels_get_enable ::
    "world \<Rightarrow> ptr \<Rightarrow> ptr list \<Rightarrow> bool \<Rightarrow> globals \<Rightarrow> int \<times> ptr list \<times> globals" where
  "stream_channels_get_enable w dev chan tx s = stream_channels_from 0 w dev chan tx s"

subsection \<open>adrv9002-iiostream.c\<close>

definition configure_trx_lo :: "world \<Rightarrow> globals \<Rightarrow> retval \<times> globals" where
  "configure_trx_lo w s0 =
     (let (phy, s1) = lib w (iio_context_find_device (ctx s0) ''adrv9002-phy'') s0
      in if phy = NULL then (Returned (- ENODEV), s1) else
      let (chan, s2) = lib w (iio_device_find_channel phy ''voltage0'' True) s1
      in if chan = NULL then (Returned (- ENODEV), s2) else
      let (ret, s3) = lib w (iio_channel_attr_read_longlong chan ''rf_bandwidth'') s2
      in if ret \<noteq> 0 then (Returned ret, s3) else
      let (ret, s4) = lib w (iio_channel_attr_read_longlong chan ''sampling_frequency'') s3
      in if ret \<noteq> 0 then (Returned ret, s4) else
      let val = GHZ 2.5;
          (chan, s5) = lib w (iio_device_find_channel phy ''altvoltage2'' True) s4
      in if chan = NULL then (Returned (- ENODEV), s5) else
      let (ret, s6) = lib w (iio_channel_attr_write_longlong chan ''TX1_LO_frequency'' val) s5
      in if ret \<noteq> 0 then (Returned ret, s6) else
      let (chan, s7) = lib w (iio_device_find_channel phy ''altvoltage0'' True) s6
      in if chan = NULL then (Returned (- ENODEV), s7) else
      let (ret, s8) = lib w (iio_channel_attr_write_longlong chan ''RX1_LO_frequency'' val) s7
      in if ret \<noteq> 0 then (Returned ret, s8) else
      (No_value, s8))"

text \<open>
  The two branches of \<^verbatim>\<open>dds_single_tone\<close> differ in the channel names only:
  \<^verbatim>\<open>altvoltage0\<close>/\<^verbatim>\<open>altvoltage2\<close> for channel 0, \<^verbatim>\<open>altvoltage4\<close>/\<^verbatim>\<open>altvoltage6\<close> otherwise.
\<close>

definition dds_single_tone :: "world \<Rightarrow> int \<Rightarrow> real \<Rightarrow> 16 word \<Rightarrow> globals \<Rightarrow> int \<times> globals" where
  "dds_single_tone w freq_val scale_val channel s0 =
     (let (tx, s1) = lib w (iio_context_find_device (ctx s0) ''axi-adrv9002-tx-lpc'') s0
      in if tx = NULL then (- ENODEV, s1) else
      let name_i = (if channel = 0 then ''altvoltage0'' else ''altvoltage4'');
          name_q = (if channel = 0 then ''altvoltage2'' else ''altvoltage6'');
          (chan_i, s2) = lib w (iio_device_find_channel tx name_i True) s1
      in if chan_i = NULL then (- ENODEV, s2) else
      let (ret, s3) = lib w (iio_channel_attr_write_longlong chan_i ''frequency'' freq_val) s2
      in if ret \<noteq> 0 then (ret, s3) else
      let (ret, s4) = lib w (iio_channel_attr_write_double chan_i ''scale'' scale_val) s3
      in if ret \<noteq> 0 then (ret, s4) else
      let (chan_q, s5) = lib w (iio_device_find_channel tx name_q True) s4
      in if chan_q = NULL then (- ENODEV, s5) else
      let (ret, s6) = lib w (iio_channel_attr_write_longlong chan_q ''frequency'' freq_val) s5
      in if ret \<noteq> 0 then (ret, s6) else
      let (ret, s7) = lib w (iio_channel_attr_write_double chan_q ''scale'' scale_val) s6
      in if ret \<noteq> 0 then (ret, s7) else
      let s8 = lib_void w (iio_channel_enable chan_i) s7;
          s9 = lib_void w (iio_channel_enable chan_q) s8
      in (0, s9))"

text \<open>
  \<^verbatim>\<open>stream\<close> with \<^verbatim>\<open>TX_DAC_MODE == 0\<close>: nothing is pushed.  The loop over the samples of
  the refilled buffer swaps I and Q in place and prints; it calls nothing.  A failing
  refill returns to \<^verbatim>\<open>main\<close>.  \<open>rx_i_chan\<close> is \<^verbatim>\<open>rx_chan[I_CHAN]\<close>.
\<close>

definition adrv9002_loop_body :: "ptr \<Rightarrow> world \<Rightarrow> globals \<Rightarrow> bool \<times> globals" where
  "adrv9002_loop_body rx_i_chan w s1 =
     (let (r, s2) = lib w (libc_sleep 5) s1;
          (nbytes_rx, s3) = lib w (iio_buffer_refill (rxbuf s2)) s2
      in if nbytes_rx < 0 then (False, s3) else
      let (p_inc, s4) = lib w (iio_buffer_step (rxbuf s3)) s3;
          (p_end, s5) = lib w (iio_buffer_end (rxbuf s4)) s4;
          (p_dat, s6) = lib w (iio_buffer_first (rxbuf s5) rx_i_chan) s5
      in (True, s6))"

definition adrv9002_stream :: "nat \<Rightarrow> world \<Rightarrow> globals \<Rightarrow> globals" where
  "adrv9002_stream fuel w s =
     while_not_stop fuel sig_handler (adrv9002_loop_body (rx_chan s ! 0)) w s"

text \<open>
  \<^verbatim>\<open>main\<close> from \<^verbatim>\<open>if (ret) goto clean;\<close> after \<^verbatim>\<open>ret = configure_trx_lo();\<close> up to the
  call of \<^verbatim>\<open>stream\<close>.  The result tells whether control goes on to \<^verbatim>\<open>stream()\<close>
  (\<open>True\<close>) or has jumped to the label \<^verbatim>\<open>clean\<close> (\<open>False\<close>), and gives the locals
  \<^verbatim>\<open>ret\<close> and \<^verbatim>\<open>phy\<close> and the state at that point.
\<close>

definition adrv9002_setup :: "world \<Rightarrow> int \<Rightarrow> globals \<Rightarrow> bool \<times> int \<times> ptr \<times> globals" where
  "adrv9002_setup w ret0 s0 =
     (if ret0 \<noteq> 0 then (False, ret0, NULL, s0) else
      let (phy, s1) = lib w (iio_context_find_device (ctx s0) ''adrv9002-phy'') s0
      in if phy = NULL then (False, EXIT_FAILURE, phy, s1) else
      let (tx, s2) = lib w (iio_context_find_device (ctx s1) ''axi-adrv9002-tx-lpc'') s1
      in if tx = NULL then (False, EXIT_FAILURE, phy, s2) else
      let (r1, s3) = lib w (iio_device_reg_write tx DAC_MODE_REGISTER TX_DAC_MODE) s2;
          (r2, s4) = lib w (iio_device_reg_read tx DAC_MODE_REGISTER) s3;
          (ret1, s5) = dds_single_tone w 5000 0.4 0 s4
      in if ret1 \<noteq> 0 then (False, ret1, phy, s5) else
      let (rx, s6) = lib w (iio_context_find_device (ctx s5) ''axi-adrv9002-rx-lpc'') s5
      in if rx = NULL then (False, EXIT_FAILURE, phy, s6) else
      let (ret2, chan, s7) = stream_channels_get_enable w rx (rx_chan s6) False s6;
          s8 = s7\<lparr>rx_chan := chan\<rparr>
      in if ret2 \<noteq> 0 then (False, ret2, phy, s8) else
      let (b, s9) = lib w (iio_device_create_buffer rx (1024 * 1024) False) s8;
          s10 = s9\<lparr>rxbuf := b\<rparr>
      in if rxbuf s10 = NULL then (False, EXIT_FAILURE, phy, s10) else
      (True, ret2, phy, s10))"

text \<open>
  The end of \<^verbatim>\<open>main\<close>: \<^verbatim>\<open>stream()\<close>, the write that switches the digital loopback off,
  and the label \<^verbatim>\<open>clean\<close>.
\<close>

definition adrv9002_main_from_lo :: "nat \<Rightarrow> world \<Rightarrow> int \<Rightarrow> globals \<Rightarrow> globals" where
  "adrv9002_main_from_lo fuel w ret0 s0 =
     (let (go_on, ret, phy, s1) = adrv9002_setup w ret0 s0
      in if \<not> go_on then clean w ret s1 else
      let s2 = adrv9002_stream fuel w s1
      in if \<not> running s2 then s2 else
      let (r3, s3) = lib w (iio_device_debug_attr_write phy
                              ''tx0_ssi_test_mode_loopback_en'' ''0'') s2
      in clean w ret s3)"

text \<open>The context from the command line, as both \<^verbatim>\<open>main\<close> functions acquire it.\<close>

definition adrv9002_acquire_context :: "world \<Rightarrow> string list \<Rightarrow> globals \<Rightarrow> globals" where
  "adrv9002_acquire_context w argv s0 =
     (if length argv = 1 then
        (let (c, s1) = lib w iio_create_default_context s0 in s1\<lparr>ctx := c\<rparr>)
      else if length argv = 2 then
        (let (c, s1) = lib w (iio_create_context_from_uri (argv ! 1)) s0 in s1\<lparr>ctx := c\<rparr>)
      else s0)"

definition adrv9002_main :: "nat \<Rightarrow> world \<Rightarrow> string list \<Rightarrow> globals" where
  "adrv9002_main fuel w argv =
     (let (r, s1) = register_signals w init_globals
      in if r < 0 then c_exit EXIT_FAILURE s1 else
      let s2 = adrv9002_acquire_context w argv s1
      in if ctx s2 = NULL then c_exit EXIT_FAILURE s2 else
      let (rv, s3) = configure_trx_lo w s2;
          ret = (case rv of Returned v \<Rightarrow> v | No_value \<Rightarrow> indeterminate w)
      in adrv9002_main_from_lo fuel w ret s3)"

subsection \<open>adrv9002-iiostream-dds.c\<close>

definition dds_configure_trx_lo :: "world \<Rightarrow> globals \<Rightarrow> retval \<times> globals" where
  "dds_configure_trx_lo w s0 =
     (let (phy, s1) = lib w (iio_context_find_device (ctx s0) ''adrv9002-phy'') s0
      in if phy = NULL then (Returned (- ENODEV), s1) else
      let (chan, s2) = lib w (iio_device_find_channel phy ''voltage0'' True) s1
      in if chan = NULL then (Returned (- ENODEV), s2) else
      let (chan, s3) = lib w (iio_device_find_channel phy ''voltage1'' True) s2
      in if chan = NULL then (Returned (- ENODEV), s3) else
      let (ret, s4) = lib w (iio_channel_attr_read_longlong chan ''rf_bandwidth'') s3
      in if ret \<noteq> 0 then (Returned ret, s4) else
      let (ret, s5) = lib w (iio_channel_attr_read_longlong chan ''sampling_frequency'') s4
      in if ret \<noteq> 0 then (Returned ret, s5) else
      let val = GHZ 2.4;
          (chan, s6) = lib w (iio_device_find_channel phy ''altvoltage2'' True) s5
      in if chan = NULL then (Returned (- ENODEV), s6) else
      let (ret, s7) = lib w (iio_channel_attr_write_longlong chan ''TX1_LO_frequency'' val) s6
      in if ret \<noteq> 0 then (Returned ret, s7) else
      let (chan, s8) = lib w (iio_device_find_channel phy ''altvoltage0'' True) s7
      in if chan = NULL then (Returned (- ENODEV), s8) else
      let (ret, s9) = lib w (iio_channel_attr_write_longlong chan ''RX1_LO_frequency'' val) s8
      in if ret \<noteq> 0 then (Returned ret, s9) else
      (No_value, s9))"

text \<open>
  \<^verbatim>\<open>configure_tx_dds\<close>: as \<^verbatim>\<open>dds_single_tone\<close>, and each value written is read back into
  \<^verbatim>\<open>freq_val\<close> and \<^verbatim>\<open>scale_val\<close>, so the Q channel is written what the I channel
  reported.  The two branches differ in the channel names only.
\<close>

definition configure_tx_dds :: "world \<Rightarrow> int \<Rightarrow> real \<Rightarrow> 16 word \<Rightarrow> globals \<Rightarrow> int \<times> globals" where
  "configure_tx_dds w freq_val0 scale_val0 channel s0 =
     (let (tx, s1) = lib w (iio_context_find_device (ctx s0) ''axi-adrv9002-tx-lpc'') s0
      in if tx = NULL then (- ENODEV, s1) else
      let name_i = (if channel = 0 then ''altvoltage0'' else ''altvoltage4'');
          name_q = (if channel = 0 then ''altvoltage2'' else ''altvoltage6'');
          (chan_i, s2) = lib w (iio_device_find_channel tx name_i True) s1
      in if chan_i = NULL then (- ENODEV, s2) else
      let (ret, s3) = lib w (iio_channel_attr_write_longlong chan_i ''frequency'' freq_val0) s2
      in if ret \<noteq> 0 then (ret, s3) else
      let (ret, s4) = lib w (iio_channel_attr_write_double chan_i ''scale'' scale_val0) s3
      in if ret \<noteq> 0 then (ret, s4) else
      let (ret, s5) = lib w (iio_channel_attr_read_longlong chan_i ''frequency'') s4;
          freq_val1 = out_ll w (length (trace s4))
      in if ret \<noteq> 0 then (ret, s5) else
      let (ret, s6) = lib w (iio_channel_attr_read_double chan_i ''scale'') s5;
          scale_val1 = out_dbl w (length (trace s5))
      in if ret \<noteq> 0 then (ret, s6) else
      let (chan_q, s7) = lib w (iio_device_find_channel tx name_q True) s6
      in if chan_q = NULL then (- ENODEV, s7) else
      let (ret, s8) = lib w (iio_channel_attr_write_longlong chan_q ''frequency'' freq_val1) s7
      in if ret \<noteq> 0 then (ret, s8) else
      let (ret, s9) = lib w (iio_channel_attr_write_double chan_q ''scale'' scale_val1) s8
      in if ret \<noteq> 0 then (ret, s9) else
      let (ret, s10) = lib w (iio_channel_attr_read_longlong chan_q ''frequency'') s9
      in if ret \<noteq> 0 then (ret, s10) else
      let (ret, s11) = lib w (iio_channel_attr_read_double chan_q ''scale'') s10
      in if ret \<noteq> 0 then (ret, s11) else
      let s12 = lib_void w (iio_channel_enable chan_i) s11;
          s13 = lib_void w (iio_channel_enable chan_q) s12
      in (0, s13))"

text \<open>
  \<^verbatim>\<open>stream\<close>: \<^verbatim>\<open>sleep(5)\<close> once, then the loop, which sleeps at the end of each iteration.
\<close>

definition dds_loop_body :: "ptr \<Rightarrow> world \<Rightarrow> globals \<Rightarrow> bool \<times> globals" where
  "dds_loop_body rx_i_chan w s1 =
     (let (nbytes_rx, s2) = lib w (iio_buffer_refill (rxbuf s1)) s1
      in if nbytes_rx < 0 then (False, s2) else
      let (p_inc, s3) = lib w (iio_buffer_step (rxbuf s2)) s2;
          (p_end, s4) = lib w (iio_buffer_end (rxbuf s3)) s3;
          (p_dat, s5) = lib w (iio_buffer_first (rxbuf s4) rx_i_chan) s4;
          (r, s6) = lib w (libc_sleep 5) s5
      in (True, s6))"

definition dds_stream :: "nat \<Rightarrow> world \<Rightarrow> globals \<Rightarrow> globals" where
  "dds_stream fuel w s0 =
     (let (r, s1) = lib w (libc_sleep 5) s0
      in while_not_stop fuel sig_handler (dds_loop_body (rx_chan s0 ! 0)) w s1)"

text \<open>
  \<^verbatim>\<open>main\<close> from \<^verbatim>\<open>if (ret) goto clean;\<close> after \<^verbatim>\<open>ret = configure_trx_lo();\<close> up to the
  call of \<^verbatim>\<open>stream\<close>: whether control goes on to \<^verbatim>\<open>stream()\<close> or has jumped to
  \<^verbatim>\<open>clean\<close>, the local \<^verbatim>\<open>ret\<close>, the state.
\<close>

definition dds_setup :: "world \<Rightarrow> int \<Rightarrow> globals \<Rightarrow> bool \<times> int \<times> globals" where
  "dds_setup w ret0 s0 =
     (if ret0 \<noteq> 0 then (False, ret0, s0) else
      let (ret1, s1) = configure_tx_dds w 5000 0.4 0 s0
      in if ret1 \<noteq> 0 then (False, ret1, s1) else
      let (rx, s2) = lib w (iio_context_find_device (ctx s1) ''axi-adrv9002-rx-lpc'') s1
      in if rx = NULL then (False, EXIT_FAILURE, s2) else
      let (ret2, chan, s3) = stream_channels_get_enable w rx (rx_chan s2) False s2;
          s4 = s3\<lparr>rx_chan := chan\<rparr>
      in if ret2 \<noteq> 0 then (False, ret2, s4) else
      let (b, s5) = lib w (iio_device_create_buffer rx (1024 * 1024) False) s4;
          s6 = s5\<lparr>rxbuf := b\<rparr>
      in if rxbuf s6 = NULL then (False, EXIT_FAILURE, s6) else
      (True, ret2, s6))"

definition dds_main_from_lo :: "nat \<Rightarrow> world \<Rightarrow> int \<Rightarrow> globals \<Rightarrow> globals" where
  "dds_main_from_lo fuel w ret0 s0 =
     (let (go_on, ret, s1) = dds_setup w ret0 s0
      in if \<not> go_on then clean w ret s1 else
      let s2 = dds_stream fuel w s1
      in if \<not> running s2 then s2 else clean w ret s2)"

definition dds_main :: "nat \<Rightarrow> world \<Rightarrow> string list \<Rightarrow> globals" where
  "dds_main fuel w argv =
     (let (r, s1) = register_signals w init_globals
      in if r < 0 then c_exit EXIT_FAILURE s1 else
      let s2 = adrv9002_acquire_context w argv s1
      in if ctx s2 = NULL then c_exit EXIT_FAILURE s2 else
      let (rv, s3) = dds_configure_trx_lo w s2;
          ret = (case rv of Returned v \<Rightarrow> v | No_value \<Rightarrow> indeterminate w)
      in dds_main_from_lo fuel w ret s3)"

section \<open>Observing a run\<close>

text \<open>Kinds of calls.\<close>

fun is_create :: "call \<Rightarrow> bool" where
  "is_create iio_create_default_context = True"
| "is_create (iio_create_context_from_uri uri) = True"
| "is_create _ = False"

fun is_lookup :: "call \<Rightarrow> bool" where
  "is_lookup (iio_context_find_device c name) = True"
| "is_lookup (iio_device_find_channel d name out) = True"
| "is_lookup _ = False"

fun is_transfer :: "call \<Rightarrow> bool" where
  "is_transfer (iio_buffer_refill b) = True"
| "is_transfer (iio_buffer_push b) = True"
| "is_transfer _ = False"

fun is_release :: "call \<Rightarrow> bool" where
  "is_release (iio_buffer_destroy b) = True"
| "is_release (iio_channel_disable c) = True"
| "is_release (iio_context_destroy c) = True"
| "is_release _ = False"

fun is_attr_access :: "call \<Rightarrow> bool" where
  "is_attr_access (iio_channel_attr_read_longlong c a) = True"
| "is_attr_access (iio_channel_attr_read_double c a) = True"
| "is_attr_access (iio_channel_attr_write_longlong c a v) = True"
| "is_attr_access (iio_channel_attr_write_double c a v) = True"
| "is_attr_access _ = False"

fun is_reg_access :: "call \<Rightarrow> bool" where
  "is_reg_access (iio_device_reg_write d a v) = True"
| "is_reg_access (iio_device_reg_read d a) = True"
| "is_reg_access (iio_device_debug_attr_write d a v) = True"
| "is_reg_access _ = False"

definition calls :: "event list \<Rightarrow> call list" where
  "calls t = concat (map (\<lambda>e. case e of Call c r \<Rightarrow> [c] | _ \<Rightarrow> []) t)"

subsection \<open>The stop flag and the transfers\<close>

text \<open>
  Reading a run from left to right.  \<open>Idle\<close>: before the loop, or a buffer has been
  transferred since the last test of the flag.  \<open>Tested\<close>: the flag has been read as
  unset and no buffer transferred since.  \<open>Stopped\<close>: the flag has been read as set.
  \<open>Released\<close>, \<open>Stopped_released\<close>: handles have been released, without or with the
  flag read as set before.  \<open>Out_of_order\<close>, for good: the flag was tested twice with
  no transfer in between, or tested again after it was read as set; or a buffer was
  transferred with no test just before it, or after the flag was read as set; or
  anything but a release followed a release.
\<close>

datatype stream_obs = Idle | Tested | Stopped | Released | Stopped_released | Out_of_order

fun stream_step :: "stream_obs \<Rightarrow> event \<Rightarrow> stream_obs" where
  "stream_step q (Handler n) = q"
| "stream_step q (Stop_test b) =
     (if q = Idle then (if b then Stopped else Tested) else Out_of_order)"
| "stream_step q (Call c r) =
     (if is_transfer c then (if q = Tested then Idle else Out_of_order)
      else if is_release c then
        (if q = Idle \<or> q = Released then Released
         else if q = Stopped \<or> q = Stopped_released then Stopped_released
         else Out_of_order)
      else if q = Idle \<or> q = Tested \<or> q = Stopped then q else Out_of_order)"

definition stream_obs :: "event list \<Rightarrow> stream_obs" where
  "stream_obs t = foldl stream_step Idle t"

subsection \<open>Failures and what follows them\<close>

text \<open>
  Reading a run from left to right.  \<open>Clear\<close>: no failure so far.  \<open>Failing\<close>: a lookup
  has returned \<open>NULL\<close> or a call of the kind \<open>code\<close> has returned a negative value, and
  only calls of the kind \<open>wind\<close> have followed.  \<open>Continued\<close>, for good: another call
  has followed a failure.
\<close>

datatype fail_obs = Clear | Failing | Continued

fun fail_step :: "(call \<Rightarrow> bool) \<Rightarrow> (call \<Rightarrow> bool) \<Rightarrow> fail_obs \<Rightarrow> event \<Rightarrow> fail_obs" where
  "fail_step code wind q (Handler n) = q"
| "fail_step code wind q (Stop_test b) = q"
| "fail_step code wind q (Call c r) =
     (if q = Clear then
        (if (is_lookup c \<and> r = NULL) \<or> (code c \<and> r < 0) then Failing else Clear)
      else if q = Failing \<and> wind c then Failing else Continued)"

text \<open>
  As the specification has it: every library call that reports errors by a negative
  code counts, and only the release of handles may follow a failure.
\<close>

definition stated_fail_obs :: "event list \<Rightarrow> fail_obs" where
  "stated_fail_obs t =
     foldl (fail_step (\<lambda>c. is_transfer c \<or> is_attr_access c \<or> is_reg_access c) is_release)
       Clear t"

text \<open>
  As the code has it: the results of register and debug-attribute accesses are not
  looked at, and such an access may precede the release of the handles.
\<close>

definition checked_fail_obs :: "event list \<Rightarrow> fail_obs" where
  "checked_fail_obs t =
     foldl (fail_step (\<lambda>c. is_transfer c \<or> is_attr_access c)
                      (\<lambda>c. is_release c \<or> is_reg_access c)) Clear t"

subsection \<open>Handles acquired and released, contexts created\<close>

definition nonnull :: "ptr list \<Rightarrow> ptr list" where
  "nonnull ps = filter (\<lambda>p. p \<noteq> NULL) ps"

text \<open>
  The releases owed in a state: the buffers first, then the streaming channels, the
  context last, each only if its pointer is not \<open>NULL\<close>.
\<close>

definition acquired :: "globals \<Rightarrow> call list" where
  "acquired s =
     map iio_buffer_destroy (nonnull [rxbuf s, txbuf s])
     @ map iio_channel_disable
         (nonnull [rxchan s, rx_chan s ! 0, tx_chan s ! 0, rx_chan s ! 1, tx_chan s ! 1])
     @ map iio_context_destroy (nonnull [ctx s])"

fun release_rank :: "call \<Rightarrow> nat" where
  "release_rank (iio_buffer_destroy b) = 0"
| "release_rank (iio_channel_disable c) = 1"
| "release_rank _ = 2"

definition released :: "event list \<Rightarrow> call list" where
  "released t = filter is_release (calls t)"

definition created :: "event list \<Rightarrow> call list" where
  "created t = filter is_create (calls t)"

definition expected_creation :: "string list \<Rightarrow> call list" where
  "expected_creation argv =
     (if length argv = 1 then [iio_create_default_context]
      else if length argv = 2 then [iio_create_context_from_uri (argv ! 1)]
      else [])"

subsection \<open>Summaries of a state\<close>

definition untouched :: "globals \<Rightarrow> globals \<Rightarrow> bool" where
  "untouched s s' \<longleftrightarrow>
     ctx s' = ctx s \<and> rxbuf s' = rxbuf s \<and> txbuf s' = txbuf s \<and> rxchan s' = rxchan s
     \<and> rx_chan s' = rx_chan s \<and> tx_chan s' = tx_chan s \<and> handlers s' = handlers s"

definition quiet :: "globals \<Rightarrow> bool" where
  "quiet s \<longleftrightarrow>
     status s = Running \<and> stream_obs (trace s) = Idle \<and> released (trace s) = []
     \<and> checked_fail_obs (trace s) = Clear"

definition aborted :: "globals \<Rightarrow> bool" where
  "aborted s \<longleftrightarrow>
     status s = Ended Abort \<and> stream_obs (trace s) = Idle \<and> released (trace s) = []
     \<and> checked_fail_obs (trace s) \<noteq> Continued"

definition exited :: "int set \<Rightarrow> globals \<Rightarrow> bool" where
  "exited codes s \<longleftrightarrow>
     (\<exists>r \<in> codes. status s = Ended (Exit r)) \<and> released (trace s) = acquired s
     \<and> stream_obs (trace s) \<in> {Idle, Released, Stopped_released}
     \<and> checked_fail_obs (trace s) \<noteq> Continued"

definition cut_off :: "globals \<Rightarrow> bool" where
  "cut_off s \<longleftrightarrow>
     status s = Cut_off \<and> stream_obs (trace s) = Idle \<and> released (trace s) = []
     \<and> checked_fail_obs (trace s) = Clear"

definition finished :: "int set \<Rightarrow> globals \<Rightarrow> bool" where
  "finished codes s \<longleftrightarrow> aborted s \<or> exited codes s \<or> cut_off s"

definition adc_globals :: "globals \<Rightarrow> bool" where
  "adc_globals s \<longleftrightarrow> txbuf s = NULL \<and> rx_chan s = [NULL, NULL] \<and> tx_chan s = [NULL, NULL]"

definition stopped :: "globals \<Rightarrow> bool" where
  "stopped s \<longleftrightarrow>
     status s = Running \<and> stream_obs (trace s) = Stopped \<and> released (trace s) = []
     \<and> checked_fail_obs (trace s) = Clear"

definition winding :: "globals \<Rightarrow> bool" where
  "winding s \<longleftrightarrow>
     status s = Running \<and> stream_obs (trace s) \<in> {Idle, Stopped} \<and> released (trace s) = []
     \<and> checked_fail_obs (trace s) \<noteq> Continued"

definition adc_streaming :: "call list \<Rightarrow> globals \<Rightarrow> bool" where
  "adc_streaming X s \<longleftrightarrow>
     quiet s \<and> adc_globals s \<and> rxbuf s \<noteq> NULL \<and> rxchan s \<noteq> NULL \<and> created (trace s) = X"

definition adc_streamed :: "call list \<Rightarrow> globals \<Rightarrow> bool" where
  "adc_streamed X s \<longleftrightarrow>
     created (trace s) = X \<and> adc_globals s
     \<and> ((stopped s \<and> rxbuf s \<noteq> NULL \<and> rxchan s \<noteq> NULL) \<or> exited {0} s \<or> cut_off s)"

definition adrv_streaming :: "call list \<Rightarrow> globals \<Rightarrow> bool" where
  "adrv_streaming X s \<longleftrightarrow> quiet s \<and> ctx s \<noteq> NULL \<and> created (trace s) = X"

definition adrv_streamed :: "call list \<Rightarrow> globals \<Rightarrow> bool" where
  "adrv_streamed X s \<longleftrightarrow>
     created (trace s) = X \<and> ctx s \<noteq> NULL \<and> (winding s \<or> cut_off s)"

text \<open>The values \<^verbatim>\<open>main\<close> of the ADRV9002 examples can return, given what it read as the
  result of \<^verbatim>\<open>configure_trx_lo\<close>.\<close>

definition codes :: "world \<Rightarrow> int \<Rightarrow> int set" where
  "codes w ret0 = {0, EXIT_FAILURE, - ENODEV, ret0} \<union> range (result w)"

definition helper_done :: "world \<Rightarrow> globals \<Rightarrow> int \<Rightarrow> globals \<Rightarrow> bool" where
  "helper_done w s r s' \<longleftrightarrow>
     untouched s s' \<and> status s' = Running \<and> created (trace s') = created (trace s)
     \<and> released (trace s') = [] \<and> stream_obs (trace s') = Idle
     \<and> checked_fail_obs (trace s') \<noteq> Continued
     \<and> (r = 0 \<longrightarrow> checked_fail_obs (trace s') = Clear)
     \<and> r \<in> codes w 0"

section \<open>Example inputs\<close>

text \<open>The buffer of the examples below: two 64-bit samples, four 32-bit words.\<close>

definition ex_buf :: "byte list" where
  "ex_buf = [0x78, 0x56, 0x34, 0x82, 1, 2, 3, 4, 0xff, 0xff, 0xff, 0x7f, 9, 9, 9, 9]"

(*OBS*)
section \<open>Properties of the sample buffers\<close>

lemma bit_le_word:
  "bit (le_word bs :: 'a::len word) n \<longleftrightarrow>
     n < LENGTH('a) \<and> n div 8 < length bs \<and> bit (bs ! (n div 8)) (n mod 8)"
proof (induction bs arbitrary: n)
  case Nil
  show ?case by simp
next
  case (Cons b bs)
  show ?case
  proof (cases "n < 8")
    case True
    then show ?thesis by (simp add: bit_simps)
  next
    case False
    then have d: "n div 8 = Suc ((n - 8) div 8)" and m: "(n - 8) mod 8 = n mod 8"
      by (simp_all add: le_div_geq le_mod_geq)
    have nb: "\<not> bit b n" using False bit_imp_le_length [of b n] by auto
    from False show ?thesis
      by (auto simp add: bit_simps Cons.IH d m nb)
  qed
qed

lemma length_le_bytes [simp]: "length (le_bytes n w) = n"
  by (simp add: le_bytes_def)

lemma bit_le_bytes:
  "k < m \<Longrightarrow> bit (le_bytes m (w :: 'a::len word) ! k) j \<longleftrightarrow> j < 8 \<and> bit w (8 * k + j)"
  by (auto simp add: le_bytes_def bit_simps dest: bit_imp_le_length)

lemma le_word_le_bytes:
  "LENGTH('a) \<le> 8 * m \<Longrightarrow> le_word (le_bytes m (w :: 'a::len word)) = w"
proof (rule bit_word_eqI)
  fix n assume a: "LENGTH('a) \<le> 8 * m" and n: "n < LENGTH('a)"
  then have "n div 8 < m" by (simp add: less_mult_imp_div_less mult.commute)
  then show "bit (le_word (le_bytes m w) :: 'a word) n = bit w n"
    using n by (simp add: bit_le_word bit_le_bytes)
qed

declare ad7768_print_loop.simps [simp del]
declare ad4630_print_loop.simps [simp del]
declare dec_nat.simps [simp del]

lemma load_i32_raw32: "4 * i + 4 \<le> length buf \<Longrightarrow> load_i32 buf i = Some (raw32 buf i)"
  by (simp add: load_i32_def load_bytes_def raw32_def)

lemma load_i64_raw64: "8 * i + 8 \<le> length buf \<Longrightarrow> load_i64 buf i = Some (raw64 buf i)"
  by (simp add: load_i64_def load_bytes_def raw64_def)

lemma store_i32_eq:
  "4 * i + 4 \<le> length buf \<Longrightarrow>
   store_i32 buf i v = Some (take (4 * i) buf @ le_bytes 4 v @ drop (4 * i + 4) buf)"
  by (simp add: store_i32_def store_bytes_def)

lemma length_ex_buf: "length ex_buf = 16"
  by (simp add: ex_buf_def)

lemma ex_buf_raw64:
  "raw64 ex_buf 0 = 0x0403020182345678" "raw64 ex_buf (Suc 0) = 0x090909097fffffff"
  by (simp_all add: raw64_def ex_buf_def)

lemma ex_buf_raw32:
  "raw32 ex_buf 0 = 0x82345678" "raw32 ex_buf (Suc 0) = 0x04030201"
  "raw32 ex_buf (Suc (Suc 0)) = 0x7fffffff" "raw32 ex_buf (Suc (Suc (Suc 0))) = 0x09090909"
  by (simp_all add: raw32_def ex_buf_def)

subsection \<open>AD7768\<close>

lemma sint_shl8: "sint (push_bit 8 (w :: 32 word)) = signed_take_bit 31 (sint w * 256)"
  by (simp add: push_bit_eq_mult sint_word_ariths)

lemma ad7768_print_loop_eq:
  "4 * n \<le> length buf \<Longrightarrow>
   ad7768_print_loop k n buf = Some (map (\<lambda>s. sint (push_bit 8 (raw32 buf s))) [k..<n])"
proof (induction k n buf rule: ad7768_print_loop.induct)
  case (1 sample n buf)
  show ?case
  proof (cases "sample < n")
    case True
    then have b: "4 * sample + 4 \<le> length buf" using "1.prems" by simp
    have ih: "ad7768_print_loop (Suc sample) n buf =
        Some (map (\<lambda>s. sint (push_bit 8 (raw32 buf s))) [Suc sample..<n])"
      using "1.IH" [OF True load_i32_raw32 [OF b]] "1.prems" by simp
    show ?thesis
      using True
      by (subst ad7768_print_loop.simps) (simp add: load_i32_raw32 [OF b] ih upt_conv_Cons)
  next
    case False
    then show ?thesis by (subst ad7768_print_loop.simps) simp
  qed
qed

text \<open>
  C7.  In the AD7768 example the integers printed for a captured block are, in order,
  the 32-bit words of the block, each shifted left by 8 bits: the signed value of the
  word times 256, reduced modulo \<open>2 ^ 32\<close> into the signed 32-bit range.  Nothing else is
  done to a sample before it is printed.  (The loop prints \<^verbatim>\<open>bytes / sample_size\<close>
  words and must stay inside the block.)
\<close>

theorem ad7768_printed_values:
  assumes "0 < sample_size" and "4 * (bytes div sample_size) \<le> length buf"
  shows "ad7768_print_samples buf bytes sample_size =
           Some (map (\<lambda>s. signed_take_bit 31 (sint (raw32 buf s) * 256))
                     [0..<bytes div sample_size])"
  using assms by (simp add: ad7768_print_samples_def ad7768_print_loop_eq sint_shl8)

theorem ad7768_printed_values_witness:
  "0 < (4 :: nat) \<and> 4 * (16 div 4) \<le> length ex_buf
   \<and> ad7768_print_samples ex_buf 16 4 = Some [878082048, 50462976, - 256, 151587072]"
proof -
  have n: "[0..<4] = [0, Suc 0, Suc (Suc 0), Suc (Suc (Suc 0))]"
    by (simp add: numeral_eq_Suc upt_conv_Cons)
  show ?thesis
    using ad7768_printed_values [of 4 16 ex_buf]
    by (simp add: length_ex_buf n ex_buf_raw32)
qed

subsection \<open>AD4630\<close>

lemma raw32_stored:
  assumes "4 * i + 4 \<le> length buf"
  shows "raw32 (take (4 * i) buf @ le_bytes 4 v @ drop (4 * i + 4) buf) i = v"
proof -
  have "drop (4 * i) (take (4 * i) buf @ le_bytes 4 v @ drop (4 * i + 4) buf)
          = le_bytes 4 v @ drop (4 * i + 4) buf"
    using assms by simp
  then show ?thesis
    by (simp add: raw32_def le_word_le_bytes)
qed

text \<open>
  The store for sample \<open>k\<close> touches bytes \<open>4k .. 4k+3\<close>; sample \<open>k\<close> and the later ones
  are read from byte \<open>8k\<close> on.  So as long as the block agrees with the captured one
  from byte \<open>4k\<close> on, the samples still to be read are the captured ones.
\<close>

lemma raw64_from_tail:
  assumes "drop (4 * k) buf = drop (4 * k) buf0"
  shows "raw64 buf k = raw64 buf0 k"
proof -
  have "drop (8 * k) xs = drop (4 * k) (drop (4 * k) xs)" for xs :: "byte list"
    by simp
  then show ?thesis
    using assms by (simp add: raw64_def del: drop_drop)
qed

lemma tail_after_store:
  assumes "length bs4 = 4" and "drop (4 * k) buf = drop (4 * k) buf0"
    and "4 * k + 4 \<le> length buf"
  shows "drop (4 * Suc k) (take (4 * k) buf @ bs4 @ drop (4 * k + 4) buf) = drop (4 * Suc k) buf0"
        (is "?l = ?r")
proof -
  have "?l = drop (4 * k + 4) buf" using assms by simp
  also have "\<dots> = drop 4 (drop (4 * k) buf)" by (simp add: add.commute)
  also have "\<dots> = drop 4 (drop (4 * k) buf0)" using assms by simp
  also have "\<dots> = ?r" by (simp add: add.commute)
  finally show ?thesis .
qed

lemma ad4630_print_loop_eq:
  assumes fmt: "\<And>raw. format_sample chn md raw = Some (g raw)"
  shows "8 * n \<le> length buf0 \<Longrightarrow> length buf = length buf0 \<Longrightarrow>
         drop (4 * k) buf = drop (4 * k) buf0 \<Longrightarrow>
         map_option snd (ad4630_print_loop chn md k n buf)
           = Some (map (\<lambda>s. g (raw64 buf0 s)) [k..<n])"
proof (induction "n - k" arbitrary: k buf)
  case 0
  then show ?case by (subst ad4630_print_loop.simps) simp
next
  case (Suc d)
  then have kn: "k < n" by simp
  then have b8: "8 * k + 8 \<le> length buf" and b4: "4 * k + 4 \<le> length buf"
    using Suc.prems by simp_all
  let ?v = "g (raw64 buf0 k)"
  let ?buf' = "take (4 * k) buf @ le_bytes 4 ?v @ drop (4 * k + 4) buf"
  have raw: "load_i64 buf k = Some (raw64 buf0 k)"
    using load_i64_raw64 [OF b8] raw64_from_tail [OF Suc.prems(3)] by simp
  have st: "store_i32 buf k ?v = Some ?buf'"
    by (rule store_i32_eq [OF b4])
  have len: "length ?buf' = length buf0" using b4 Suc.prems(2) by simp
  have ld: "load_i32 ?buf' k = Some ?v"
    using load_i32_raw32 [of k ?buf'] raw32_stored [OF b4, of ?v] b4 by simp
  have tl: "drop (4 * Suc k) ?buf' = drop (4 * Suc k) buf0"
    by (rule tail_after_store [OF _ Suc.prems(3) b4]) simp
  have ih: "map_option snd (ad4630_print_loop chn md (Suc k) n ?buf')
              = Some (map (\<lambda>s. g (raw64 buf0 s)) [Suc k..<n])"
    using Suc.hyps(1) [of "Suc k" ?buf', OF _ Suc.prems(1) len tl] Suc.hyps(2) by simp
  show ?case
    using kn ih
    by (subst ad4630_print_loop.simps)
       (auto simp add: raw fmt st ld upt_conv_Cons split: option.splits)
qed

text \<open>
  C3.  In the AD4630 example as configured (\<open>OUT_DATA_MD = 1\<close>, \<open>CHANNEL_NUMBER = 0\<close>)
  the 32-bit values printed for a captured block are, in order and one for each
  captured 64-bit sample, the low 32 bits of the sample taken as a signed 32-bit
  integer and shifted right arithmetically by 16 bits.  Although the loop writes the
  formatted values into the block it is still reading, every value printed is a
  function of the captured sample and of the mode constant alone.  (The loop handles
  \<^verbatim>\<open>bytes / sample_size\<close> samples and must stay inside the block.)
\<close>

theorem ad4630_printed_values:
  assumes "0 < sample_size" and "8 * (bytes div sample_size) \<le> length buf"
  shows "map_option snd (ad4630_print_samples buf bytes sample_size) =
           Some (map (\<lambda>s. signed_drop_bit 16 (ucast (raw64 buf s) :: 32 word))
                     [0..<bytes div sample_size])"
proof -
  have "format_sample CHANNEL_NUMBER OUT_DATA_MD raw
          = Some (signed_drop_bit 16 (ucast raw :: 32 word))" for raw
    by (simp add: format_sample_def format_ch0_def CHANNEL_NUMBER_def OUT_DATA_MD_def)
  from ad4630_print_loop_eq [OF this, of "bytes div sample_size" buf buf 0] assms
  show ?thesis by (simp add: ad4630_print_samples_def)
qed

theorem ad4630_printed_values_witness:
  "0 < (8 :: nat) \<and> 8 * (16 div 8) \<le> length ex_buf
   \<and> map_option snd (ad4630_print_samples ex_buf 16 8) = Some [- 32204, 32767]"
proof -
  have n: "[0..<2] = [0, Suc 0]"
    by (simp add: numeral_eq_Suc upt_conv_Cons)
  show ?thesis
    using ad4630_printed_values [of 8 16 ex_buf]
    by (simp add: length_ex_buf n ex_buf_raw64)
qed

section \<open>Properties of the channel names\<close>

lemma digit_char_in: "digit_char d \<in> set ''0123456789''"
  unfolding digit_char_def by (rule nth_mem) simp

lemma digit_char_not_NUL: "digit_char d \<noteq> NUL"
  using digit_char_in [of d] by (auto simp add: NUL_def)

lemma dec_nat_no_NUL: "NUL \<notin> set (dec_nat n)"
proof (induction n rule: dec_nat.induct)
  case (1 n)
  show ?case
  proof (cases "n < 10")
    case True
    then show ?thesis
      using digit_char_not_NUL [of n] by (subst dec_nat.simps) auto
  next
    case False
    then show ?thesis
      using "1.IH" digit_char_not_NUL [of "n mod 10"] by (subst dec_nat.simps) auto
  qed
qed

lemma dec_int_no_NUL: "NUL \<notin> set (dec_int i)"
  using dec_nat_no_NUL by (simp add: dec_int_def NUL_def)

lemma c_str_no_NUL: "NUL \<notin> set (c_str cs)"
  by (auto simp add: c_str_def dest: set_takeWhileD)

lemma c_str_terminated: "NUL \<notin> set xs \<Longrightarrow> c_str (xs @ NUL # ys) = xs"
  by (auto simp add: c_str_def takeWhile_tail)

text \<open>
  C10.  For every type string and every \<^verbatim>\<open>int\<close> id, \<^verbatim>\<open>get_ch_name\<close> leaves the 64-byte
  static buffer 64 bytes long (nothing is written outside it) and holding a
  NUL-terminated string of at most 63 characters: the type string followed by the
  decimal representation of the id, cut to 63 characters.
\<close>

theorem get_ch_name_in_buffer:
  assumes "length tmp = 64"
  shows "length (get_ch_name tmp type id_arg) = 64
       \<and> c_str (get_ch_name tmp type id_arg) = take 63 (c_str type @ dec_int (sint id_arg))
       \<and> length (c_str (get_ch_name tmp type id_arg)) \<le> 63
       \<and> get_ch_name tmp type id_arg ! length (c_str (get_ch_name tmp type id_arg)) = NUL"
proof -
  let ?out = "c_str type @ dec_int (sint id_arg)"
  let ?r = "get_ch_name tmp type id_arg"
  have r: "?r = take 63 ?out @ NUL # drop (Suc (length (take 63 ?out))) tmp"
    using assms by (simp add: get_ch_name_def snprintf_def Let_def)
  have nn: "NUL \<notin> set (take 63 ?out)"
    using c_str_no_NUL [of type] dec_int_no_NUL [of "sint id_arg"]
    by (auto dest: in_set_takeD)
  have c: "c_str ?r = take 63 ?out"
    by (subst r) (rule c_str_terminated [OF nn])
  have l: "length ?r = 64"
    by (subst r) (use assms in auto)
  have z: "?r ! length (take 63 ?out) = NUL"
    by (subst r) (simp only: nth_append_length)
  show ?thesis using c l z by simp
qed

theorem get_ch_name_in_buffer_witness:
  "length (replicate 64 NUL) = 64
   \<and> c_str (get_ch_name (replicate 64 NUL) ''voltage'' 4) = ''voltage4''"
proof -
  have "c_str ''voltage'' @ dec_int (sint (4 :: 32 word)) = ''voltage4''"
    by (simp add: c_str_def dec_int_def dec_nat.simps digit_char_def NUL_def)
  then show ?thesis
    using get_ch_name_in_buffer [of "replicate 64 NUL" "''voltage''" 4] by simp
qed

end
